theory Spec2Isabelle
  imports Main
begin

section \<open>The file source driver of syslog-ng (modules/affile/affile-source.c)\<close>

text \<open>
  The driver is glue between the configuration, the file reader and the pipeline
  engine. Its own decisions (follow frequency, opener, multi-line validation) are pure;
  everything else is a sequence of calls into collaborators that live in other files.
  The model keeps the driver's struct as a record, runs every function of the file as
  a function on that record, and writes each collaborator call into a call log kept
  beside the struct, in the order the C code makes the calls. What a collaborator
  answers (a gboolean result, the outcome of stat, the resolved options) comes from an
  environment record, one per call of a driver method.
\<close>

subsection \<open>Data\<close>

text \<open>
  Modelled from the spec: the multi-line mode enum is declared with the multi-line
  protocol, not in this file. The spec calls it a closed set with none, prefix-garbage,
  prefix-suffix and others; the others are numbered.
\<close>

datatype multi_line_mode = MLM_NONE | MLM_PREFIX_GARBAGE | MLM_PREFIX_SUFFIX | MLM_OTHER nat

text \<open>
  \<open>prefix\<close> and \<open>garbage\<close> are pointers to compiled patterns in C, tested against
  NULL only; \<open>None\<close> is NULL, \<open>Some p\<close> a pattern that was set.
\<close>

record LogProtoMultiLineServerOptions =
  mode :: multi_line_mode
  prefix :: "string option"
  garbage :: "string option"

record LogSourceOptions =
  stats_level :: int
  stats_source :: int

record LogReaderOptions =
  super_options :: LogSourceOptions
  proto_options :: LogProtoMultiLineServerOptions

record FileReaderOptions =
  follow_freq :: int
  restore_state :: bool
  reader_options :: LogReaderOptions

record FileOpenerOptions =
  needs_privileges :: bool

text \<open>The three opener constructors of file-specializations.h, by what they build.\<close>

datatype FileOpener = RegularSourceFiles | ProcKmsg | DevKmsg

record GlobalConfig =
  user_version :: int

datatype pipe_ref = DriverPipe

text \<open>
  Modelled from the spec: the reader is built by \<open>file_reader_new\<close> (file-reader.c)
  from the path, the resolved options, the opener, the owning pipe and the global
  configuration; it is a pipe with a next pipe, an initialized flag and a reference
  count, and the driver holds the only reference.
\<close>

record FileReader =
  fr_filename :: string
  fr_options :: FileReaderOptions
  fr_opener :: "FileOpener option"
  fr_owner :: pipe_ref
  fr_cfg :: GlobalConfig
  pipe_next :: "pipe_ref option"
  fr_initialized :: bool
  ref_cnt :: nat

type_synonym LogMessage = string
type_synonym LogPathOptions = bool

text \<open>Calls into collaborators, as the call log records them.\<close>

datatype call =
    LogSrcDriverInitInstance
  | FileReaderOptionsDefaults
  | FileOpenerOptionsDefaults
  | MsgWarningOnce
  | Stat string
  | FileOpenerNew FileOpener
  | LogSrcDriverInitMethod
  | FileReaderOptionsInit
  | FileOpenerOptionsInit
  | FileOpenerSetOptions
  | FileReaderNew
  | MsgError string
  | LogPipeAppend
  | LogPipeInit
  | LogPipeDeinit
  | LogSrcDriverDeinitMethod
  | LogSrcDriverQueueMethod LogMessage LogPathOptions
  | FileOpenerFree
  | LogPipeUnref
  | GStringFree
  | FileReaderOptionsDeinit
  | FileOpenerOptionsDeinit
  | LogSrcDriverFree

text \<open>
  The struct \<open>AFFileSourceDriver\<close>. \<open>cfg\<close> and \<open>group\<close> are the fields of the
  embedded base structs the file reads; \<open>file_opener\<close> and \<open>file_reader\<close> are
  pointers, NULL (\<open>None\<close>) after \<open>g_new0\<close>. \<open>calls\<close> is the call log.
\<close>

record AFFileSourceDriver =
  cfg :: GlobalConfig
  group :: "string option"
  filename :: string
  file_reader_options :: FileReaderOptions
  file_opener_options :: FileOpenerOptions
  file_opener :: "FileOpener option"
  file_reader :: "FileReader option"
  calls :: "call list"

datatype file_type = S_IFREG | S_IFDIR | S_IFCHR | S_IFBLK | S_IFIFO | S_IFSOCK

text \<open>
  What the collaborators answer during one call of a driver method.
  \<^item> \<open>linux\<close>: whether the file was compiled with \<open>__linux__\<close> defined;
  \<^item> \<open>stat\<close>: the outcome of stat(2), \<open>None\<close> when it returns a negative value,
    otherwise the file type in \<open>st_mode\<close>;
  \<^item> \<open>STATS_LEVEL1\<close>, \<open>SCS_FILE\<close>: constants of the statistics headers;
  \<^item> the defaults the two \<open>_defaults\<close> functions write;
  \<^item> the gboolean results of the generic source driver's and the reader's
    init and deinit;
  \<^item> the resolution of reader and opener options from the global configuration;
  \<^item> the reader's persist name.
\<close>

record env =
  linux :: bool
  stat :: "string \<Rightarrow> file_type option"
  STATS_LEVEL1 :: int
  SCS_FILE :: int
  file_reader_options_defaults :: FileReaderOptions
  file_opener_options_defaults :: FileOpenerOptions
  log_src_driver_init_method :: bool
  log_reader_options_init :: "GlobalConfig \<Rightarrow> string option \<Rightarrow> LogReaderOptions \<Rightarrow> LogReaderOptions"
  file_opener_options_init :: "GlobalConfig \<Rightarrow> FileOpenerOptions \<Rightarrow> FileOpenerOptions"
  reader_init :: bool
  reader_deinit :: bool
  log_src_driver_deinit_method :: bool
  reader_persist_name :: "FileReader \<Rightarrow> string"

datatype error = NullReader | RefCountUnderflow

subsection \<open>Collaborators\<close>

text \<open>
  Modelled from the spec: \<open>cfg_is_config_version_older\<close> is declared with the global
  configuration, not in this file; the spec compares the compatibility version with
  the threshold.
\<close>

definition cfg_is_config_version_older :: "GlobalConfig \<Rightarrow> int \<Rightarrow> bool" where
  "cfg_is_config_version_older c req = (user_version c < req)"

text \<open>
  Modelled from the spec: \<open>file_reader_options_init\<close> (file-reader.c) resolves the
  reader options from the global configuration; the follow frequency and the restore
  flag are the constructor's and stay as resolved.
\<close>

definition file_reader_options_init ::
  "env \<Rightarrow> FileReaderOptions \<Rightarrow> GlobalConfig \<Rightarrow> string option \<Rightarrow> FileReaderOptions" where
  "file_reader_options_init e opts c g =
     opts\<lparr>reader_options := log_reader_options_init e c g (reader_options opts)\<rparr>"

text \<open>
  Modelled from the spec: \<open>file_reader_new\<close> (file-reader.c) builds the reader from
  path, options, opener, owner and configuration, unlinked, not initialized, with the
  driver's one reference.
\<close>

definition file_reader_new ::
  "string \<Rightarrow> FileReaderOptions \<Rightarrow> FileOpener option \<Rightarrow> pipe_ref \<Rightarrow> GlobalConfig \<Rightarrow>
   FileReader" where
  "file_reader_new fname opts opener owner c =
     \<lparr>fr_filename = fname, fr_options = opts, fr_opener = opener, fr_owner = owner,
      fr_cfg = c, pipe_next = None, fr_initialized = False, ref_cnt = 1\<rparr>"

text \<open>
  Modelled from the spec: \<open>log_pipe_append\<close>, \<open>log_pipe_init\<close> and
  \<open>log_pipe_deinit\<close> (logpipe.h) link a pipe to its next pipe and run a pipe's own
  init and deinit, whose result is the caller's to use. The initialized flag follows
  a successful init or deinit.
\<close>

definition log_pipe_append :: "FileReader \<Rightarrow> pipe_ref \<Rightarrow> FileReader" where
  "log_pipe_append r nxt = r\<lparr>pipe_next := Some nxt\<rparr>"

definition log_pipe_init :: "env \<Rightarrow> FileReader \<Rightarrow> bool \<times> FileReader" where
  "log_pipe_init e r =
     (if reader_init e then (True, r\<lparr>fr_initialized := True\<rparr>) else (False, r))"

definition log_pipe_deinit :: "env \<Rightarrow> FileReader \<Rightarrow> bool \<times> FileReader" where
  "log_pipe_deinit e r =
     (if reader_deinit e then (True, r\<lparr>fr_initialized := False\<rparr>) else (False, r))"

text \<open>
  Modelled from the spec: \<open>log_pipe_unref\<close> (logpipe.h) decrements the reference
  count of the pipe it is given, and the pipe is destroyed when no holder remains. The
  spec lets Free run on a driver that was never initialized, whose reader pointer is
  NULL: there is nothing to release then. A count that is already zero has no holder
  left to release.
\<close>

definition log_pipe_unref :: "FileReader option \<Rightarrow> error + FileReader option" where
  "log_pipe_unref p =
     (case p of
        None \<Rightarrow> Inr None
      | Some r \<Rightarrow>
          if ref_cnt r = 0 then Inl RefCountUnderflow
          else Inr (Some (r\<lparr>ref_cnt := ref_cnt r - 1\<rparr>)))"

subsection \<open>The functions of affile-source.c\<close>

definition is_linux_proc_kmsg :: "env \<Rightarrow> string \<Rightarrow> bool" where
  "is_linux_proc_kmsg e fname =
     (if linux e then (if fname = ''/proc/kmsg'' then True else False) else False)"

definition is_linux_dev_kmsg :: "env \<Rightarrow> string \<Rightarrow> bool" where
  "is_linux_dev_kmsg e fname =
     (if linux e then (if fname = ''/dev/kmsg'' then True else False) else False)"

definition S_ISREG :: "file_type \<Rightarrow> bool" where
  "S_ISREG m = (m = S_IFREG)"

definition is_device_node :: "env \<Rightarrow> string \<Rightarrow> bool" where
  "is_device_node e fname =
     (case stat e fname of None \<Rightarrow> False | Some st \<Rightarrow> \<not> S_ISREG st)"

definition are_multi_line_settings_invalid :: "AFFileSourceDriver \<Rightarrow> bool" where
  "are_multi_line_settings_invalid self =
     (let multi_line_options = proto_options (reader_options (file_reader_options self));
          is_garbage_mode = (mode multi_line_options = MLM_PREFIX_GARBAGE);
          is_suffix_mode = (mode multi_line_options = MLM_PREFIX_SUFFIX)
      in (\<not> is_garbage_mode \<and> \<not> is_suffix_mode) \<and>
         (prefix multi_line_options \<noteq> None \<or> garbage multi_line_options \<noteq> None))"

definition log_call :: "call \<Rightarrow> AFFileSourceDriver \<Rightarrow> AFFileSourceDriver" where
  "log_call c self = self\<lparr>calls := calls self @ [c]\<rparr>"

text \<open>
  \<open>affile_sd_format_persist_name\<close> hands the reader to \<open>log_pipe_get_persist_name\<close>,
  which reads it: with a NULL reader there is no name to return.
\<close>

definition affile_sd_format_persist_name :: "env \<Rightarrow> AFFileSourceDriver \<Rightarrow> error + string" where
  "affile_sd_format_persist_name e self =
     (case file_reader self of
        None \<Rightarrow> Inl NullReader
      | Some r \<Rightarrow> Inr (reader_persist_name e r))"

text \<open>
  \<open>affile_sd_queue\<close> passes its arguments on unchanged; \<open>user_data\<close> is an opaque
  pointer the driver never reads and is left out.
\<close>

definition affile_sd_queue ::
  "AFFileSourceDriver \<Rightarrow> LogMessage \<Rightarrow> LogPathOptions \<Rightarrow> AFFileSourceDriver" where
  "affile_sd_queue self msg path_options = log_call (LogSrcDriverQueueMethod msg path_options) self"

definition multi_line_error :: string where
  "multi_line_error =
     ''multi-line-prefix() and/or multi-line-garbage() specified but multi-line-mode() is not regexp based '' @
     ''(prefix-garbage or prefix-suffix), please set multi-line-mode() properly''"

definition affile_sd_init :: "env \<Rightarrow> AFFileSourceDriver \<Rightarrow> bool \<times> AFFileSourceDriver" where
  "affile_sd_init e self =
     (let c = cfg self;
          s0 = log_call LogSrcDriverInitMethod self
      in if \<not> log_src_driver_init_method e then (False, s0)
         else
           let s1 = log_call FileReaderOptionsInit
                      (s0\<lparr>file_reader_options :=
                            file_reader_options_init e (file_reader_options s0) c (group s0)\<rparr>);
               s2 = log_call FileOpenerOptionsInit
                      (s1\<lparr>file_opener_options :=
                            file_opener_options_init e c (file_opener_options s1)\<rparr>);
               s3 = log_call FileOpenerSetOptions s2;
               r = file_reader_new (filename s3) (file_reader_options s3) (file_opener s3)
                     DriverPipe c;
               s4 = log_call FileReaderNew (s3\<lparr>file_reader := Some r\<rparr>)
           in if are_multi_line_settings_invalid s4
              then (False, log_call (MsgError multi_line_error) s4)
              else
                let r1 = log_pipe_append r DriverPipe;
                    s5 = log_call LogPipeAppend (s4\<lparr>file_reader := Some r1\<rparr>);
                    res = log_pipe_init e r1
                in (fst res, log_call LogPipeInit (s5\<lparr>file_reader := Some (snd res)\<rparr>)))"

text \<open>
  \<open>affile_sd_deinit\<close> calls \<open>log_pipe_deinit\<close> on the reader and drops what it
  returns; the function's result is the generic step's. \<open>log_pipe_deinit\<close> reads the
  pipe it is given, so a NULL reader (a driver that was never initialized) is an error.
\<close>

definition affile_sd_deinit ::
  "env \<Rightarrow> AFFileSourceDriver \<Rightarrow> error + (bool \<times> AFFileSourceDriver)" where
  "affile_sd_deinit e self =
     (case file_reader self of
        None \<Rightarrow> Inl NullReader
      | Some r \<Rightarrow>
          let s1 = log_call LogPipeDeinit (self\<lparr>file_reader := Some (snd (log_pipe_deinit e r))\<rparr>);
              s2 = log_call LogSrcDriverDeinitMethod s1
          in if \<not> log_src_driver_deinit_method e then Inr (False, s2) else Inr (True, s2))"

text \<open>
  \<open>affile_sd_free\<close> returns nothing in C. The record returned here is the driver as it
  was when its memory was handed back: the call log names what was released, and the
  reader (which may have other holders) carries its new count.
\<close>

definition affile_sd_free :: "AFFileSourceDriver \<Rightarrow> error + AFFileSourceDriver" where
  "affile_sd_free self =
     (let s1 = log_call FileOpenerFree self
      in case log_pipe_unref (file_reader s1) of
           Inl err \<Rightarrow> Inl err
         | Inr r \<Rightarrow>
             Inr (log_call LogSrcDriverFree
                   (log_call FileOpenerOptionsDeinit
                     (log_call FileReaderOptionsDeinit
                       (log_call GStringFree
                         (log_call LogPipeUnref (s1\<lparr>file_reader := r\<rparr>)))))))"

text \<open>
  \<open>affile_sd_new_instance\<close> also fills the method table of the pipe with the five
  functions above; the table is what \<open>call_method\<close> below dispatches on.
\<close>

definition affile_sd_new_instance :: "env \<Rightarrow> string \<Rightarrow> GlobalConfig \<Rightarrow> AFFileSourceDriver" where
  "affile_sd_new_instance e fname c =
     (let dflt = file_reader_options_defaults e;
          ro = reader_options dflt
      in \<lparr>cfg = c, group = None, filename = fname,
          file_reader_options =
            dflt\<lparr>reader_options :=
                   ro\<lparr>super_options := (super_options ro)\<lparr>stats_level := STATS_LEVEL1 e\<rparr>\<rparr>\<rparr>,
          file_opener_options = file_opener_options_defaults e,
          file_opener = None, file_reader = None,
          calls = [LogSrcDriverInitInstance, FileReaderOptionsDefaults, FileOpenerOptionsDefaults]\<rparr>)"

definition set_follow_freq :: "int \<Rightarrow> AFFileSourceDriver \<Rightarrow> AFFileSourceDriver" where
  "set_follow_freq n self =
     self\<lparr>file_reader_options := (file_reader_options self)\<lparr>follow_freq := n\<rparr>\<rparr>"

definition set_opener :: "FileOpener \<Rightarrow> AFFileSourceDriver \<Rightarrow> AFFileSourceDriver" where
  "set_opener opener self = log_call (FileOpenerNew opener) (self\<lparr>file_opener := Some opener\<rparr>)"

definition affile_sd_new :: "env \<Rightarrow> string \<Rightarrow> GlobalConfig \<Rightarrow> AFFileSourceDriver" where
  "affile_sd_new e fname c =
     (let s0 = affile_sd_new_instance e fname c;
          ro = reader_options (file_reader_options s0);
          s1 = s0\<lparr>file_reader_options :=
                    (file_reader_options s0)\<lparr>reader_options :=
                       ro\<lparr>super_options := (super_options ro)\<lparr>stats_source := SCS_FILE e\<rparr>\<rparr>\<rparr>\<rparr>;
          s2 = (if cfg_is_config_version_older c 0x0300
                then set_follow_freq (- 1) (log_call MsgWarningOnce s1)
                else if is_device_node e fname \<or> is_linux_proc_kmsg e fname
                     then set_follow_freq 0 (log_call (Stat fname) s1)
                     else set_follow_freq 1000 (log_call (Stat fname) s1));
          s3 = (if follow_freq (file_reader_options s2) > 0
                then set_opener RegularSourceFiles s2
                else if is_linux_proc_kmsg e (filename s2)
                     then set_opener ProcKmsg
                            (s2\<lparr>file_opener_options :=
                                  (file_opener_options s2)\<lparr>needs_privileges := True\<rparr>\<rparr>)
                     else if is_linux_dev_kmsg e (filename s2)
                          then set_opener DevKmsg s2
                          else set_opener RegularSourceFiles s2)
      in s3\<lparr>file_reader_options :=
              (file_reader_options s3)\<lparr>restore_state := follow_freq (file_reader_options s3) > 0\<rparr>\<rparr>)"

subsection \<open>The engine's use of the driver\<close>

text \<open>
  The pipeline engine calls the methods one after the other on one driver. A run is a
  list of method calls, each with the environment it meets; it stops at the first
  error.
\<close>

datatype pipe_method = Init | Queue LogMessage LogPathOptions | Deinit | Free

fun call_method :: "env \<Rightarrow> pipe_method \<Rightarrow> AFFileSourceDriver \<Rightarrow> error + AFFileSourceDriver" where
  "call_method e Init self = Inr (snd (affile_sd_init e self))"
| "call_method e (Queue msg po) self = Inr (affile_sd_queue self msg po)"
| "call_method e Deinit self =
     (case affile_sd_deinit e self of Inl err \<Rightarrow> Inl err | Inr res \<Rightarrow> Inr (snd res))"
| "call_method e Free self = affile_sd_free self"

fun run :: "(env \<times> pipe_method) list \<Rightarrow> AFFileSourceDriver \<Rightarrow> error + AFFileSourceDriver" where
  "run [] self = Inr self"
| "run ((e, m) # ms) self =
     (case call_method e m self of Inl err \<Rightarrow> Inl err | Inr self' \<Rightarrow> run ms self')"

subsection \<open>Configuration between construction and initialization\<close>

text \<open>
  The configuration grammar writes the multi-line options into the driver's option
  struct after the constructor has returned. \<open>resolved\<close> is the driver as
  \<open>affile_sd_init\<close> sees it when it validates: the reader options resolved from the
  global configuration.
\<close>

definition with_multi_line ::
  "LogProtoMultiLineServerOptions \<Rightarrow> AFFileSourceDriver \<Rightarrow> AFFileSourceDriver" where
  "with_multi_line ml self =
     self\<lparr>file_reader_options :=
            (file_reader_options self)\<lparr>reader_options :=
               (reader_options (file_reader_options self))\<lparr>proto_options := ml\<rparr>\<rparr>\<rparr>"

definition multi_line_options :: "AFFileSourceDriver \<Rightarrow> LogProtoMultiLineServerOptions" where
  "multi_line_options self = proto_options (reader_options (file_reader_options self))"

definition resolved :: "env \<Rightarrow> AFFileSourceDriver \<Rightarrow> AFFileSourceDriver" where
  "resolved e self =
     self\<lparr>file_reader_options :=
            file_reader_options_init e (file_reader_options self) (cfg self) (group self)\<rparr>"

text \<open>The reader \<open>affile_sd_init\<close> constructs, as \<open>file_reader_new\<close> returns it.\<close>

definition built_reader :: "env \<Rightarrow> AFFileSourceDriver \<Rightarrow> FileReader" where
  "built_reader e self =
     file_reader_new (filename self) (file_reader_options (resolved e self)) (file_opener self)
       DriverPipe (cfg self)"

text \<open>The calls \<open>affile_sd_free\<close> makes, in its order.\<close>

definition released :: "call list" where
  "released =
     [FileOpenerFree, LogPipeUnref, GStringFree, FileReaderOptionsDeinit,
      FileOpenerOptionsDeinit, LogSrcDriverFree]"

definition restore_state_invariant :: "AFFileSourceDriver \<Rightarrow> bool" where
  "restore_state_invariant self =
     (restore_state (file_reader_options self) = (follow_freq (file_reader_options self) > 0))"

subsection \<open>Concrete inputs\<close>

definition plain_options :: FileReaderOptions where
  "plain_options =
     \<lparr>follow_freq = 0, restore_state = False,
      reader_options =
        \<lparr>super_options = \<lparr>stats_level = 0, stats_source = 0\<rparr>,
         proto_options = \<lparr>mode = MLM_NONE, prefix = None, garbage = None\<rparr>\<rparr>\<rparr>"

text \<open>
  A Linux host: \<open>/dev/kmsg\<close> is a character device, \<open>/proc/kmsg\<close> and
  \<open>/var/log/app.log\<close> are reported regular, \<open>/var/spool\<close> is a directory and nothing
  else exists. Every collaborator succeeds and option resolution changes nothing.
\<close>

definition linux_host :: env where
  "linux_host =
     \<lparr>linux = True,
      stat = (\<lambda>f. if f = ''/dev/kmsg'' then Some S_IFCHR
                  else if f = ''/proc/kmsg'' \<or> f = ''/var/log/app.log'' then Some S_IFREG
                  else if f = ''/var/spool'' then Some S_IFDIR
                  else None),
      STATS_LEVEL1 = 1, SCS_FILE = 2,
      file_reader_options_defaults = plain_options,
      file_opener_options_defaults = \<lparr>needs_privileges = False\<rparr>,
      log_src_driver_init_method = True,
      log_reader_options_init = (\<lambda>c g opts. opts),
      file_opener_options_init = (\<lambda>c opts. opts),
      reader_init = True, reader_deinit = True,
      log_src_driver_deinit_method = True,
      reader_persist_name = (\<lambda>r. ''affile_sd_curpos('' @ fr_filename r @ '')'')\<rparr>"

text \<open>The same host without a mounted \<open>/proc\<close>: stat fails on every path.\<close>

definition bare_host :: env where
  "bare_host = linux_host\<lparr>stat := (\<lambda>f. None)\<rparr>"

definition reader_init_fails :: env where
  "reader_init_fails = linux_host\<lparr>reader_init := False\<rparr>"

definition reader_deinit_fails :: env where
  "reader_deinit_fails = linux_host\<lparr>reader_deinit := False\<rparr>"

definition generic_deinit_fails :: env where
  "generic_deinit_fails = linux_host\<lparr>log_src_driver_deinit_method := False\<rparr>"

definition cfg_3_5 :: GlobalConfig where
  "cfg_3_5 = \<lparr>user_version = 0x0305\<rparr>"

definition cfg_2_1 :: GlobalConfig where
  "cfg_2_1 = \<lparr>user_version = 0x0201\<rparr>"

definition app_log :: AFFileSourceDriver where
  "app_log = affile_sd_new linux_host ''/var/log/app.log'' cfg_3_5"

definition app_log_initialized :: AFFileSourceDriver where
  "app_log_initialized = snd (affile_sd_init linux_host app_log)"

definition app_log_queued :: AFFileSourceDriver where
  "app_log_queued = affile_sd_queue app_log_initialized ''Oct 30 15:41:07 host app: up'' True"

definition app_log_deinitialized :: AFFileSourceDriver where
  "app_log_deinitialized =
     app_log_queued
       \<lparr>file_reader := map_option (\<lambda>r. r\<lparr>fr_initialized := False\<rparr>) (file_reader app_log_queued),
        calls := calls app_log_queued @ [LogPipeDeinit, LogSrcDriverDeinitMethod]\<rparr>"

definition app_log_lifecycle :: "(env \<times> pipe_method) list" where
  "app_log_lifecycle =
     [(linux_host, Init), (linux_host, Queue ''Oct 30 15:41:07 host app: up'' True),
      (linux_host, Deinit), (linux_host, Free)]"

definition app_log_bad_framing :: AFFileSourceDriver where
  "app_log_bad_framing =
     with_multi_line \<lparr>mode = MLM_NONE, prefix = Some ''^[0-9]+'', garbage = None\<rparr> app_log"

section \<open>Properties\<close>

subsection \<open>The path tests\<close>

lemma is_linux_proc_kmsg_iff: "is_linux_proc_kmsg e f = (linux e \<and> f = ''/proc/kmsg'')"
  by (simp add: is_linux_proc_kmsg_def)

lemma is_linux_dev_kmsg_iff: "is_linux_dev_kmsg e f = (linux e \<and> f = ''/dev/kmsg'')"
  by (simp add: is_linux_dev_kmsg_def)

lemma is_device_node_iff: "is_device_node e f = (stat e f \<notin> {None, Some S_IFREG})"
  by (auto simp: is_device_node_def S_ISREG_def split: option.splits)

lemma is_device_node_stat_failed: "stat e f = None \<Longrightarrow> \<not> is_device_node e f"
  by (simp add: is_device_node_def)

subsection \<open>The constructor, field by field\<close>

lemmas new_defs =
  affile_sd_new_def affile_sd_new_instance_def Let_def set_follow_freq_def set_opener_def
  log_call_def

lemma filename_new: "filename (affile_sd_new e f c) = f"
  by (simp add: new_defs)

lemma file_reader_new_instance: "file_reader (affile_sd_new e f c) = None"
  by (simp add: new_defs)

lemma follow_freq_new:
  "follow_freq (file_reader_options (affile_sd_new e f c)) =
     (if cfg_is_config_version_older c 0x0300 then - 1
      else if is_device_node e f \<or> is_linux_proc_kmsg e f then 0 else 1000)"
  by (simp add: new_defs)

lemma file_opener_new:
  "file_opener (affile_sd_new e f c) =
     Some (if follow_freq (file_reader_options (affile_sd_new e f c)) > 0 then RegularSourceFiles
           else if is_linux_proc_kmsg e f then ProcKmsg
           else if is_linux_dev_kmsg e f then DevKmsg
           else RegularSourceFiles)"
  by (simp add: new_defs)

lemma needs_privileges_new:
  "needs_privileges (file_opener_options (affile_sd_new e f c)) =
     (if \<not> follow_freq (file_reader_options (affile_sd_new e f c)) > 0 \<and> is_linux_proc_kmsg e f
      then True
      else needs_privileges (file_opener_options_defaults e))"
  by (simp add: new_defs)

lemma restore_state_new:
  "restore_state (file_reader_options (affile_sd_new e f c)) =
     (follow_freq (file_reader_options (affile_sd_new e f c)) > 0)"
  by (simp add: new_defs)

subsection \<open>Follow policy and opener selection\<close>

text \<open>
  Claim C3. The constructor sets the follow frequency to \<open>-1\<close> when the configuration
  version is older than \<open>0x0300\<close>, whatever the path is. Otherwise it is \<open>0\<close> when the
  path is a special node (stat succeeds and reports something other than a regular
  file) or the legacy kernel ring buffer path, and \<open>1000\<close> for every other path. The
  legacy kernel ring buffer path is \<open>/proc/kmsg\<close> where the file is compiled for Linux;
  the comparison is compiled out elsewhere, where no such path exists.
\<close>

theorem affile_sd_new_follow_freq:
  "follow_freq (file_reader_options (affile_sd_new e fname c)) =
     (if user_version c < 0x0300 then - 1
      else if stat e fname \<notin> {None, Some S_IFREG} \<or> (linux e \<and> fname = ''/proc/kmsg'') then 0
      else 1000)"
  by (simp add: follow_freq_new cfg_is_config_version_older_def is_device_node_iff
      is_linux_proc_kmsg_iff)

theorem affile_sd_new_follow_freq_witness:
  "follow_freq (file_reader_options (affile_sd_new linux_host ''/proc/kmsg'' cfg_3_5)) = 0 \<and>
   follow_freq (file_reader_options (affile_sd_new linux_host ''/dev/kmsg'' cfg_3_5)) = 0 \<and>
   follow_freq (file_reader_options (affile_sd_new linux_host ''/var/log/app.log'' cfg_3_5)) = 1000 \<and>
   follow_freq (file_reader_options (affile_sd_new linux_host ''/dev/kmsg'' cfg_2_1)) = - 1"
  using affile_sd_new_follow_freq [of linux_host "''/proc/kmsg''" cfg_3_5]
    affile_sd_new_follow_freq [of linux_host "''/dev/kmsg''" cfg_3_5]
    affile_sd_new_follow_freq [of linux_host "''/var/log/app.log''" cfg_3_5]
    affile_sd_new_follow_freq [of linux_host "''/dev/kmsg''" cfg_2_1]
  by (simp add: linux_host_def cfg_3_5_def cfg_2_1_def)

text \<open>
  Claim C4. The opener of a constructed driver is chosen by the first rule that
  matches: a positive follow frequency gives the opener for regular source files
  whatever the file is; else \<open>/proc/kmsg\<close> gives the privileged kmsg opener and sets
  \<open>needs_privileges\<close>; else \<open>/dev/kmsg\<close> gives the opener for the kmsg device; else
  the opener for regular source files. Where no rule sets \<open>needs_privileges\<close> it keeps
  its default. The two kmsg paths are recognised where the file is compiled for Linux.
\<close>

theorem affile_sd_new_opener:
  "file_opener (affile_sd_new e fname c) =
     Some (if follow_freq (file_reader_options (affile_sd_new e fname c)) > 0 then RegularSourceFiles
           else if linux e \<and> fname = ''/proc/kmsg'' then ProcKmsg
           else if linux e \<and> fname = ''/dev/kmsg'' then DevKmsg
           else RegularSourceFiles) \<and>
   needs_privileges (file_opener_options (affile_sd_new e fname c)) =
     (if follow_freq (file_reader_options (affile_sd_new e fname c)) > 0
      then needs_privileges (file_opener_options_defaults e)
      else if linux e \<and> fname = ''/proc/kmsg'' then True
      else needs_privileges (file_opener_options_defaults e))"
  by (simp add: file_opener_new needs_privileges_new is_linux_proc_kmsg_iff
      is_linux_dev_kmsg_iff)

theorem affile_sd_new_opener_witness:
  "file_opener (affile_sd_new linux_host ''/proc/kmsg'' cfg_3_5) = Some ProcKmsg \<and>
   needs_privileges (file_opener_options (affile_sd_new linux_host ''/proc/kmsg'' cfg_3_5)) \<and>
   file_opener (affile_sd_new linux_host ''/dev/kmsg'' cfg_3_5) = Some DevKmsg \<and>
   file_opener (affile_sd_new linux_host ''/var/log/app.log'' cfg_3_5) = Some RegularSourceFiles \<and>
   file_opener (affile_sd_new linux_host ''/var/spool'' cfg_3_5) = Some RegularSourceFiles"
  using affile_sd_new_opener [of linux_host "''/proc/kmsg''" cfg_3_5]
    affile_sd_new_opener [of linux_host "''/dev/kmsg''" cfg_3_5]
    affile_sd_new_opener [of linux_host "''/var/log/app.log''" cfg_3_5]
    affile_sd_new_opener [of linux_host "''/var/spool''" cfg_3_5]
  by (simp add: follow_freq_new cfg_is_config_version_older_def is_device_node_iff
      is_linux_proc_kmsg_iff linux_host_def cfg_3_5_def)

text \<open>
  Claim C8, as stated, fails. On a Linux build the path \<open>/proc/kmsg\<close> is recognised by
  name, not by stat: when stat fails on it (no \<open>/proc\<close> mounted) and the configuration
  is not a legacy one, the driver gets follow frequency \<open>0\<close> and the privileged kmsg
  opener, not \<open>1000\<close> and the opener for regular source files.
\<close>

theorem stat_failure_proc_kmsg_counterexample:
  "stat bare_host ''/proc/kmsg'' = None \<and>
   \<not> cfg_is_config_version_older cfg_3_5 0x0300 \<and>
   follow_freq (file_reader_options (affile_sd_new bare_host ''/proc/kmsg'' cfg_3_5)) = 0 \<and>
   file_opener (affile_sd_new bare_host ''/proc/kmsg'' cfg_3_5) = Some ProcKmsg"
  by (simp add: file_opener_new follow_freq_new cfg_is_config_version_older_def
      is_device_node_iff is_linux_proc_kmsg_iff bare_host_def linux_host_def cfg_3_5_def)

text \<open>
  Claim C8, amended. When stat fails on the path, the constructor still returns a
  driver and the device test answers no. Under a configuration that is not a legacy
  one, the driver then gets follow frequency \<open>1000\<close> and the opener for regular source
  files, unless the path is \<open>/proc/kmsg\<close> on a Linux build, which keeps follow
  frequency \<open>0\<close> and the privileged kmsg opener.
\<close>

theorem stat_failure_degrades_to_regular:
  assumes "stat e fname = None" and "\<not> cfg_is_config_version_older c 0x0300"
  shows "\<not> is_device_node e fname \<and>
         filename (affile_sd_new e fname c) = fname \<and>
         (if linux e \<and> fname = ''/proc/kmsg''
          then follow_freq (file_reader_options (affile_sd_new e fname c)) = 0 \<and>
               file_opener (affile_sd_new e fname c) = Some ProcKmsg
          else follow_freq (file_reader_options (affile_sd_new e fname c)) = 1000 \<and>
               file_opener (affile_sd_new e fname c) = Some RegularSourceFiles)"
  using assms
  by (simp add: is_device_node_stat_failed filename_new file_opener_new follow_freq_new
      is_linux_proc_kmsg_iff)

theorem stat_failure_degrades_to_regular_witness:
  "stat linux_host ''/var/log/absent.log'' = None \<and>
   \<not> cfg_is_config_version_older cfg_3_5 0x0300 \<and>
   follow_freq (file_reader_options (affile_sd_new linux_host ''/var/log/absent.log'' cfg_3_5)) = 1000 \<and>
   file_opener (affile_sd_new linux_host ''/var/log/absent.log'' cfg_3_5) = Some RegularSourceFiles"
proof -
  have s: "stat linux_host ''/var/log/absent.log'' = None"
    by (simp add: linux_host_def)
  have v: "\<not> cfg_is_config_version_older cfg_3_5 0x0300"
    by (simp add: cfg_is_config_version_older_def cfg_3_5_def)
  show ?thesis
    using s v stat_failure_degrades_to_regular [OF s v] by simp
qed

subsection \<open>Multi-line validation\<close>

lemma multi_line_invalid_iff:
  "are_multi_line_settings_invalid self =
     (mode (multi_line_options self) \<noteq> MLM_PREFIX_GARBAGE \<and>
      mode (multi_line_options self) \<noteq> MLM_PREFIX_SUFFIX \<and>
      (prefix (multi_line_options self) \<noteq> None \<or> garbage (multi_line_options self) \<noteq> None))"
  by (simp add: are_multi_line_settings_invalid_def multi_line_options_def Let_def)

lemma multi_line_options_with: "multi_line_options (with_multi_line ml self) = ml"
  by (simp add: multi_line_options_def with_multi_line_def)

lemma multi_line_options_new:
  "multi_line_options (affile_sd_new e f c) =
     proto_options (reader_options (file_reader_options_defaults e))"
  by (simp add: multi_line_options_def new_defs)

lemma multi_line_options_app_log:
  "multi_line_options app_log = \<lparr>mode = MLM_NONE, prefix = None, garbage = None\<rparr>"
  by (simp add: app_log_def multi_line_options_new linux_host_def plain_options_def)

text \<open>
  Claim C7. The validator reports a configuration invalid exactly when its mode is
  neither prefix-garbage nor prefix-suffix and at least one of prefix and garbage is
  set (a non-NULL pattern). In particular mode none with a prefix is rejected and mode
  prefix-suffix with a prefix is accepted, whatever garbage is.
\<close>

theorem multi_line_settings_invalid_exactly:
  "are_multi_line_settings_invalid self =
     (mode (multi_line_options self) \<noteq> MLM_PREFIX_GARBAGE \<and>
      mode (multi_line_options self) \<noteq> MLM_PREFIX_SUFFIX \<and>
      (prefix (multi_line_options self) \<noteq> None \<or> garbage (multi_line_options self) \<noteq> None)) \<and>
   are_multi_line_settings_invalid
     (with_multi_line \<lparr>mode = MLM_NONE, prefix = Some p, garbage = g\<rparr> self) \<and>
   \<not> are_multi_line_settings_invalid
     (with_multi_line \<lparr>mode = MLM_PREFIX_SUFFIX, prefix = Some p, garbage = g\<rparr> self)"
  by (simp add: multi_line_invalid_iff multi_line_options_with)

theorem multi_line_settings_invalid_exactly_witness:
  "are_multi_line_settings_invalid app_log_bad_framing \<and>
   \<not> are_multi_line_settings_invalid app_log \<and>
   \<not> are_multi_line_settings_invalid
     (with_multi_line \<lparr>mode = MLM_PREFIX_SUFFIX, prefix = Some ''^[0-9]+'', garbage = None\<rparr> app_log)"
  using multi_line_settings_invalid_exactly [of app_log "''^[0-9]+''" None]
    multi_line_settings_invalid_exactly [of app_log_bad_framing]
  by (simp add: app_log_bad_framing_def multi_line_options_app_log)

subsection \<open>Initialization\<close>

lemmas init_defs = affile_sd_init_def Let_def log_call_def resolved_def

lemma linux_host_answers:
  "linux linux_host" "log_src_driver_init_method linux_host"
  "log_reader_options_init linux_host c g ropts = ropts"
  "file_opener_options_init linux_host c oopts = oopts"
  "reader_init linux_host" "reader_deinit linux_host"
  "log_src_driver_deinit_method linux_host"
  by (simp_all add: linux_host_def)

lemma built_reader_fresh:
  "pipe_next (built_reader e self) = None" "\<not> fr_initialized (built_reader e self)"
  "ref_cnt (built_reader e self) = 1" "fr_filename (built_reader e self) = filename self"
  "fr_opener (built_reader e self) = file_opener self"
  "fr_options (built_reader e self) = file_reader_options (resolved e self)"
  "fr_owner (built_reader e self) = DriverPipe" "fr_cfg (built_reader e self) = cfg self"
  by (simp_all add: built_reader_def file_reader_new_def)

text \<open>The three ways through \<open>affile_sd_init\<close>, each with the driver it leaves.\<close>

lemma init_generic_failure:
  "\<not> log_src_driver_init_method e \<Longrightarrow>
   affile_sd_init e self = (False, self\<lparr>calls := calls self @ [LogSrcDriverInitMethod]\<rparr>)"
  by (simp add: init_defs)

lemma init_invalid:
  "log_src_driver_init_method e \<Longrightarrow> are_multi_line_settings_invalid (resolved e self) \<Longrightarrow>
   affile_sd_init e self =
     (False,
      self\<lparr>file_reader_options := file_reader_options (resolved e self),
           file_opener_options := file_opener_options_init e (cfg self) (file_opener_options self),
           file_reader := Some (built_reader e self),
           calls := calls self @
             [LogSrcDriverInitMethod, FileReaderOptionsInit, FileOpenerOptionsInit,
              FileOpenerSetOptions, FileReaderNew, MsgError multi_line_error]\<rparr>)"
  by (simp add: init_defs built_reader_def are_multi_line_settings_invalid_def)

lemma init_valid:
  "log_src_driver_init_method e \<Longrightarrow> \<not> are_multi_line_settings_invalid (resolved e self) \<Longrightarrow>
   affile_sd_init e self =
     (reader_init e,
      self\<lparr>file_reader_options := file_reader_options (resolved e self),
           file_opener_options := file_opener_options_init e (cfg self) (file_opener_options self),
           file_reader :=
             Some (snd (log_pipe_init e (log_pipe_append (built_reader e self) DriverPipe))),
           calls := calls self @
             [LogSrcDriverInitMethod, FileReaderOptionsInit, FileOpenerOptionsInit,
              FileOpenerSetOptions, FileReaderNew, LogPipeAppend, LogPipeInit]\<rparr>)"
  by (auto simp: init_defs built_reader_def are_multi_line_settings_invalid_def log_pipe_init_def)

lemma multi_line_options_resolved:
  "multi_line_options (resolved e self) =
     proto_options (log_reader_options_init e (cfg self) (AFFileSourceDriver.group self)
        (reader_options (file_reader_options self)))"
  by (simp add: multi_line_options_def resolved_def file_reader_options_init_def)

lemma multi_line_options_resolved_linux_host:
  "multi_line_options (resolved linux_host self) = multi_line_options self"
  by (simp add: multi_line_options_resolved linux_host_answers) (simp add: multi_line_options_def)

lemma bad_framing_invalid:
  "are_multi_line_settings_invalid (resolved linux_host app_log_bad_framing)"
  by (simp add: multi_line_invalid_iff multi_line_options_resolved_linux_host
      app_log_bad_framing_def multi_line_options_with)

lemma app_log_valid: "\<not> are_multi_line_settings_invalid (resolved linux_host app_log)"
  by (simp add: multi_line_invalid_iff multi_line_options_resolved_linux_host
      multi_line_options_app_log)

lemma app_log_no_reader: "file_reader app_log = None"
  by (simp add: app_log_def file_reader_new_instance)

text \<open>
  Claim C1, as stated, fails. \<open>affile_sd_init\<close> calls \<open>file_reader_new\<close> and stores the
  reader before it validates the multi-line settings. With mode none and a prefix set,
  on a driver for \<open>/var/log/app.log\<close>, the call returns FALSE, yet the driver that had
  no reader now holds the constructed one, and is not the driver it was.
\<close>

theorem init_invalid_framing_reader_counterexample:
  "are_multi_line_settings_invalid (resolved linux_host app_log_bad_framing) \<and>
   file_reader app_log_bad_framing = None \<and>
   fst (affile_sd_init linux_host app_log_bad_framing) = False \<and>
   file_reader (snd (affile_sd_init linux_host app_log_bad_framing)) =
     Some (built_reader linux_host app_log_bad_framing) \<and>
   FileReaderNew \<in> set (calls (snd (affile_sd_init linux_host app_log_bad_framing))) \<and>
   snd (affile_sd_init linux_host app_log_bad_framing) \<noteq> app_log_bad_framing"
proof -
  have r: "file_reader app_log_bad_framing = None"
    by (simp add: app_log_bad_framing_def with_multi_line_def app_log_no_reader)
  have i: "file_reader (snd (affile_sd_init linux_host app_log_bad_framing)) =
      Some (built_reader linux_host app_log_bad_framing)"
    by (simp add: init_invalid bad_framing_invalid linux_host_answers)
  from r i have "snd (affile_sd_init linux_host app_log_bad_framing) \<noteq> app_log_bad_framing"
    by auto
  with r i show ?thesis
    by (simp add: init_invalid bad_framing_invalid linux_host_answers)
qed

text \<open>
  Claim C1, amended. For every configuration whose multi-line framing is invalid (as
  resolved at initialization), \<open>affile_sd_init\<close> returns FALSE. When the generic source
  driver init has succeeded, it does so after logging the descriptive error; by then
  the options are resolved and the reader has been constructed and stored in the
  driver, but that reader is never appended to the pipe graph and never initialized.
  When the generic init fails, nothing but that call has happened and no reader is
  constructed.
\<close>

theorem init_rejects_invalid_framing:
  assumes "are_multi_line_settings_invalid (resolved e self)"
  shows "fst (affile_sd_init e self) = False \<and>
         (if log_src_driver_init_method e
          then file_reader (snd (affile_sd_init e self)) = Some (built_reader e self) \<and>
               pipe_next (built_reader e self) = None \<and>
               \<not> fr_initialized (built_reader e self) \<and>
               calls (snd (affile_sd_init e self)) =
                 calls self @
                 [LogSrcDriverInitMethod, FileReaderOptionsInit, FileOpenerOptionsInit,
                  FileOpenerSetOptions, FileReaderNew, MsgError multi_line_error]
          else snd (affile_sd_init e self) =
                 self\<lparr>calls := calls self @ [LogSrcDriverInitMethod]\<rparr>)"
proof (cases "log_src_driver_init_method e")
  case True
  then show ?thesis
    using assms by (simp add: init_invalid built_reader_fresh)
next
  case False
  then show ?thesis
    by (simp add: init_generic_failure)
qed

theorem init_rejects_invalid_framing_witness:
  "are_multi_line_settings_invalid (resolved linux_host app_log_bad_framing) \<and>
   fst (affile_sd_init linux_host app_log_bad_framing) = False \<and>
   last (calls (snd (affile_sd_init linux_host app_log_bad_framing))) =
     MsgError multi_line_error"
  using init_rejects_invalid_framing [OF bad_framing_invalid] bad_framing_invalid
  by (simp add: linux_host_answers)

lemma reader_init_fails_answers:
  "log_src_driver_init_method reader_init_fails" "\<not> reader_init reader_init_fails"
  "log_reader_options_init reader_init_fails c g ropts = ropts"
  by (simp_all add: reader_init_fails_def linux_host_def)

lemma resolved_reader_init_fails: "resolved reader_init_fails self = resolved linux_host self"
  by (simp add: resolved_def file_reader_options_init_def reader_init_fails_answers
      linux_host_answers)

lemma append_then_failed_init:
  "\<not> reader_init e \<Longrightarrow>
   snd (log_pipe_init e (log_pipe_append r DriverPipe)) = r\<lparr>pipe_next := Some DriverPipe\<rparr>"
  by (simp add: log_pipe_init_def log_pipe_append_def)

lemma append_then_init:
  "reader_init e \<Longrightarrow>
   snd (log_pipe_init e (log_pipe_append r DriverPipe)) =
     r\<lparr>pipe_next := Some DriverPipe, fr_initialized := True\<rparr>"
  by (simp add: log_pipe_init_def log_pipe_append_def)

text \<open>
  Claim C2, as stated, fails. \<open>affile_sd_init\<close> appends the reader and then returns
  what the reader's init returns; nothing undoes the append. When the reader's init
  fails on the driver for \<open>/var/log/app.log\<close>, the call returns FALSE and the reader the
  driver holds is still linked to it.
\<close>

theorem init_reader_failure_link_counterexample:
  "\<not> reader_init reader_init_fails \<and>
   fst (affile_sd_init reader_init_fails app_log) = False \<and>
   map_option pipe_next (file_reader (snd (affile_sd_init reader_init_fails app_log))) =
     Some (Some DriverPipe)"
  by (simp add: init_valid reader_init_fails_answers resolved_reader_init_fails app_log_valid
      append_then_failed_init)

text \<open>
  Claim C2, amended. For every driver whose reader's init returns failure,
  \<open>affile_sd_init\<close> returns FALSE. When the reader's init was reached (the generic init
  succeeded and the framing is valid), the reader is left constructed, not marked
  initialized, and still appended: the link made before the reader's init is not
  undone, and the reader's init is the last call made.
\<close>

theorem init_reader_failure:
  assumes "\<not> reader_init e"
  shows "fst (affile_sd_init e self) = False \<and>
         (log_src_driver_init_method e \<and> \<not> are_multi_line_settings_invalid (resolved e self) \<longrightarrow>
            file_reader (snd (affile_sd_init e self)) =
              Some ((built_reader e self)\<lparr>pipe_next := Some DriverPipe\<rparr>) \<and>
            \<not> fr_initialized (built_reader e self) \<and>
            calls (snd (affile_sd_init e self)) =
              calls self @
              [LogSrcDriverInitMethod, FileReaderOptionsInit, FileOpenerOptionsInit,
               FileOpenerSetOptions, FileReaderNew, LogPipeAppend, LogPipeInit])"
proof -
  consider (generic) "\<not> log_src_driver_init_method e"
    | (invalid) "log_src_driver_init_method e" "are_multi_line_settings_invalid (resolved e self)"
    | (valid) "log_src_driver_init_method e" "\<not> are_multi_line_settings_invalid (resolved e self)"
    by blast
  then show ?thesis
  proof cases
    case generic
    then show ?thesis by (simp add: init_generic_failure)
  next
    case invalid
    then show ?thesis by (simp add: init_invalid)
  next
    case valid
    then show ?thesis
      using assms by (simp add: init_valid append_then_failed_init built_reader_fresh)
  qed
qed

theorem init_reader_failure_witness:
  "\<not> reader_init reader_init_fails \<and>
   log_src_driver_init_method reader_init_fails \<and>
   \<not> are_multi_line_settings_invalid (resolved reader_init_fails app_log) \<and>
   fst (affile_sd_init reader_init_fails app_log) = False \<and>
   last (calls (snd (affile_sd_init reader_init_fails app_log))) = LogPipeInit"
  using init_reader_failure [of reader_init_fails app_log]
  by (simp add: reader_init_fails_answers resolved_reader_init_fails app_log_valid)

subsection \<open>Deinitialization\<close>

lemma deinit_reader:
  "file_reader self = Some r \<Longrightarrow>
   affile_sd_deinit e self =
     Inr (log_src_driver_deinit_method e,
          self\<lparr>file_reader := Some (snd (log_pipe_deinit e r)),
               calls := calls self @ [LogPipeDeinit, LogSrcDriverDeinitMethod]\<rparr>)"
  by (simp add: affile_sd_deinit_def Let_def log_call_def)

lemma deinit_no_reader: "file_reader self = None \<Longrightarrow> affile_sd_deinit e self = Inl NullReader"
  by (simp add: affile_sd_deinit_def)

lemma reader_after_deinit:
  "snd (log_pipe_deinit e r) = (if reader_deinit e then r\<lparr>fr_initialized := False\<rparr> else r)"
  by (simp add: log_pipe_deinit_def)

lemma app_log_init_ok: "fst (affile_sd_init linux_host app_log) = True"
  by (simp add: init_valid linux_host_answers app_log_valid)

lemma app_log_initialized_reader:
  "file_reader app_log_initialized =
     Some ((built_reader linux_host app_log)\<lparr>pipe_next := Some DriverPipe, fr_initialized := True\<rparr>)"
  by (simp add: app_log_initialized_def init_valid linux_host_answers app_log_valid
      append_then_init)

lemma reader_deinit_fails_answers:
  "\<not> reader_deinit reader_deinit_fails" "log_src_driver_deinit_method reader_deinit_fails"
  by (simp_all add: reader_deinit_fails_def linux_host_def)

lemma generic_deinit_fails_answer: "\<not> log_src_driver_deinit_method generic_deinit_fails"
  by (simp add: generic_deinit_fails_def)

text \<open>
  Claim C6, as stated, fails. \<open>affile_sd_deinit\<close> drops what \<open>log_pipe_deinit\<close> returns
  for the reader. On the initialized driver for \<open>/var/log/app.log\<close>, with a reader whose
  deinit fails and a generic step that succeeds, the call returns TRUE.
\<close>

theorem deinit_reader_failure_counterexample:
  "fst (affile_sd_init linux_host app_log) = True \<and>
   \<not> reader_deinit reader_deinit_fails \<and>
   map_sum id fst (affile_sd_deinit reader_deinit_fails app_log_initialized) = Inr True"
  by (simp add: app_log_init_ok reader_deinit_fails_answers
      deinit_reader [OF app_log_initialized_reader])

text \<open>
  Claim C6, amended. For every initialized driver (one that holds its reader),
  \<open>affile_sd_deinit\<close> first deinitializes the reader and then runs the generic source
  driver deinitialization, and returns what the generic step returns: a failure of the
  generic step is propagated. What the reader's deinit returns is not used.
\<close>

theorem deinit_reader_then_generic:
  assumes "file_reader self = Some r"
  shows "affile_sd_deinit e self =
     Inr (log_src_driver_deinit_method e,
          self\<lparr>file_reader := Some (snd (log_pipe_deinit e r)),
               calls := calls self @ [LogPipeDeinit, LogSrcDriverDeinitMethod]\<rparr>)"
  using assms by (rule deinit_reader)

theorem deinit_reader_then_generic_witness:
  "map_sum id fst (affile_sd_deinit linux_host app_log_initialized) = Inr True \<and>
   map_sum id (calls \<circ> snd) (affile_sd_deinit linux_host app_log_initialized) =
     Inr (calls app_log_initialized @ [LogPipeDeinit, LogSrcDriverDeinitMethod]) \<and>
   map_sum id fst (affile_sd_deinit generic_deinit_fails app_log_initialized) = Inr False"
  using deinit_reader_then_generic [OF app_log_initialized_reader, of linux_host]
    deinit_reader_then_generic [OF app_log_initialized_reader, of generic_deinit_fails]
  by (simp add: linux_host_answers generic_deinit_fails_answer)

subsection \<open>The persist name\<close>

lemma init_True_cases:
  assumes "affile_sd_init e self = (True, self')"
  shows "log_src_driver_init_method e" "\<not> are_multi_line_settings_invalid (resolved e self)"
    "reader_init e"
proof -
  show g: "log_src_driver_init_method e"
    using assms init_generic_failure [of e self] by auto
  show v: "\<not> are_multi_line_settings_invalid (resolved e self)"
    using assms g init_invalid [of e self] by auto
  show "reader_init e"
    using assms g v init_valid [of e self] by auto
qed

lemma init_True_reader:
  assumes "affile_sd_init e self = (True, self')"
  shows "file_reader self' =
     Some ((built_reader e self)\<lparr>pipe_next := Some DriverPipe, fr_initialized := True\<rparr>)"
  using assms init_True_cases [OF assms] init_valid [of e self]
  by (auto simp: append_then_init)

lemma queue_reader: "file_reader (affile_sd_queue self msg po) = file_reader self"
  by (simp add: affile_sd_queue_def log_call_def)

lemma init_keeps_reader: "file_reader self \<noteq> None \<Longrightarrow> file_reader (snd (affile_sd_init e self)) \<noteq> None"
proof -
  assume a: "file_reader self \<noteq> None"
  consider (generic) "\<not> log_src_driver_init_method e"
    | (invalid) "log_src_driver_init_method e" "are_multi_line_settings_invalid (resolved e self)"
    | (valid) "log_src_driver_init_method e" "\<not> are_multi_line_settings_invalid (resolved e self)"
    by blast
  then show ?thesis
  proof cases
    case generic
    then show ?thesis using a by (simp add: init_generic_failure)
  next
    case invalid
    then show ?thesis by (simp add: init_invalid)
  next
    case valid
    then show ?thesis by (simp add: init_valid)
  qed
qed

lemma call_method_keeps_reader:
  assumes "file_reader self \<noteq> None" "m \<noteq> Free" "call_method e m self = Inr self'"
  shows "file_reader self' \<noteq> None"
proof (cases m)
  case Init
  then show ?thesis using assms init_keeps_reader [of self e] by auto
next
  case (Queue msg po)
  then show ?thesis using assms by (auto simp: queue_reader)
next
  case Deinit
  from assms(1) obtain r where r: "file_reader self = Some r" by auto
  show ?thesis using assms(3) Deinit by (auto simp: deinit_reader [OF r])
next
  case Free
  then show ?thesis using assms by simp
qed

lemma run_keeps_reader:
  "file_reader self \<noteq> None \<Longrightarrow> Free \<notin> set (map snd ms) \<Longrightarrow> run ms self = Inr self' \<Longrightarrow>
   file_reader self' \<noteq> None"
proof (induction ms arbitrary: self)
  case Nil
  then show ?case by simp
next
  case (Cons em ms)
  obtain e m where em: "em = (e, m)" by (cases em)
  from Cons.prems(3) em obtain s1 where s1: "call_method e m self = Inr s1" "run ms s1 = Inr self'"
    by (auto split: sum.splits)
  from Cons.prems(2) em have "m \<noteq> Free" "Free \<notin> set (map snd ms)" by auto
  with call_method_keeps_reader [OF Cons.prems(1) _ s1(1)] Cons.IH [OF _ _ s1(2)]
  show ?case by blast
qed

lemma persist_name_reader:
  "file_reader self = Some r \<Longrightarrow> affile_sd_format_persist_name q self = Inr (reader_persist_name q r)"
  by (simp add: affile_sd_format_persist_name_def)

lemma linux_host_persist_name:
  "reader_persist_name linux_host r = ''affile_sd_curpos('' @ fr_filename r @ '')''"
  by (simp add: linux_host_def)

lemma app_log_init: "affile_sd_init linux_host app_log = (True, app_log_initialized)"
  using app_log_init_ok by (simp add: app_log_initialized_def prod_eq_iff)

lemma app_log_filename: "filename app_log = ''/var/log/app.log''"
  by (simp add: app_log_def filename_new)

lemma app_log_queued_reader:
  "file_reader app_log_queued =
     Some ((built_reader linux_host app_log)\<lparr>pipe_next := Some DriverPipe, fr_initialized := True\<rparr>)"
  by (simp add: app_log_queued_def queue_reader app_log_initialized_reader)

lemma app_log_deinit:
  "affile_sd_deinit linux_host app_log_queued = Inr (True, app_log_deinitialized)"
  by (simp add: deinit_reader [OF app_log_queued_reader] reader_after_deinit linux_host_answers
      app_log_deinitialized_def app_log_queued_reader)

lemma app_log_deinitialized_reader:
  "file_reader app_log_deinitialized =
     Some ((built_reader linux_host app_log)\<lparr>pipe_next := Some DriverPipe, fr_initialized := False\<rparr>)"
  by (simp add: app_log_deinitialized_def app_log_queued_reader)

lemma reader_deinit_fails_init:
  "log_src_driver_init_method reader_deinit_fails" "reader_init reader_deinit_fails"
  "log_reader_options_init reader_deinit_fails c g ropts = ropts"
  by (simp_all add: reader_deinit_fails_def linux_host_def)

lemma resolved_reader_deinit_fails: "resolved reader_deinit_fails self = resolved linux_host self"
  by (simp add: resolved_def file_reader_options_init_def reader_deinit_fails_init
      linux_host_answers)

text \<open>
  Claim C9. After a successful \<open>affile_sd_init\<close> the driver's persist-name query
  returns the persist name of the reader that init constructed: the reader built from
  the driver's path, resolved options, opener and configuration, appended and
  initialized. The query goes on returning the current reader's name after any further
  method calls short of Free. Two drivers with the same path, opener, configuration
  and resolved options get the same key from their successful inits, whatever their
  call logs and the other answers of their environments are.
\<close>

theorem persist_name_is_the_readers:
  assumes "affile_sd_init e self = (True, self')"
  shows "file_reader self' =
           Some ((built_reader e self)\<lparr>pipe_next := Some DriverPipe, fr_initialized := True\<rparr>) \<and>
         affile_sd_format_persist_name q self' =
           Inr (reader_persist_name q
                  ((built_reader e self)\<lparr>pipe_next := Some DriverPipe, fr_initialized := True\<rparr>)) \<and>
         (\<forall>ms later. Free \<notin> set (map snd ms) \<and> run ms self' = Inr later \<longrightarrow>
            (\<exists>r. file_reader later = Some r \<and>
                 affile_sd_format_persist_name q later = Inr (reader_persist_name q r))) \<and>
         (\<forall>e2 other other'.
            affile_sd_init e2 other = (True, other') \<and> filename other = filename self \<and>
            file_opener other = file_opener self \<and> cfg other = cfg self \<and>
            file_reader_options (resolved e2 other) = file_reader_options (resolved e self) \<longrightarrow>
            affile_sd_format_persist_name q other' = affile_sd_format_persist_name q self')"
proof -
  note r = init_True_reader [OF assms]
  have later: "\<exists>r. file_reader later = Some r \<and>
      affile_sd_format_persist_name q later = Inr (reader_persist_name q r)"
    if "Free \<notin> set (map snd ms)" "run ms self' = Inr later" for ms later
  proof -
    have "file_reader later \<noteq> None"
      using run_keeps_reader [OF _ that] r by simp
    then show ?thesis by (auto simp: persist_name_reader)
  qed
  have same: "affile_sd_format_persist_name q other' = affile_sd_format_persist_name q self'"
    if "affile_sd_init e2 other = (True, other')" "filename other = filename self"
      "file_opener other = file_opener self" "cfg other = cfg self"
      "file_reader_options (resolved e2 other) = file_reader_options (resolved e self)"
    for e2 other other'
  proof -
    have "built_reader e2 other = built_reader e self"
      using that by (simp add: built_reader_def)
    then show ?thesis
      using init_True_reader [OF that(1)] r by (simp add: persist_name_reader)
  qed
  from r later same show ?thesis
    by (simp add: persist_name_reader) blast
qed

theorem persist_name_is_the_readers_witness:
  "affile_sd_init linux_host app_log = (True, app_log_initialized) \<and>
   affile_sd_format_persist_name linux_host app_log_initialized =
     Inr ''affile_sd_curpos(/var/log/app.log)'' \<and>
   run [(linux_host, Queue ''Oct 30 15:41:07 host app: up'' True), (linux_host, Deinit)]
     app_log_initialized = Inr app_log_deinitialized \<and>
   affile_sd_format_persist_name linux_host app_log_deinitialized =
     Inr ''affile_sd_curpos(/var/log/app.log)'' \<and>
   fst (affile_sd_init reader_deinit_fails app_log) = True \<and>
   affile_sd_format_persist_name linux_host (snd (affile_sd_init reader_deinit_fails app_log)) =
     Inr ''affile_sd_curpos(/var/log/app.log)''"
proof -
  note t = persist_name_is_the_readers [OF app_log_init, of linux_host]
  have first: "affile_sd_format_persist_name linux_host app_log_initialized =
      Inr ''affile_sd_curpos(/var/log/app.log)''"
    using t by (simp add: linux_host_persist_name built_reader_fresh app_log_filename)
  have r: "run [(linux_host, Queue ''Oct 30 15:41:07 host app: up'' True), (linux_host, Deinit)]
      app_log_initialized = Inr app_log_deinitialized"
    using app_log_deinit by (simp add: app_log_queued_def)
  have "Free \<notin> set (map snd
      [(linux_host, Queue ''Oct 30 15:41:07 host app: up'' True), (linux_host, Deinit)])"
    by simp
  with t r have "\<exists>r. file_reader app_log_deinitialized = Some r \<and>
      affile_sd_format_persist_name linux_host app_log_deinitialized =
        Inr (reader_persist_name linux_host r)"
    by blast
  then have later: "affile_sd_format_persist_name linux_host app_log_deinitialized =
      Inr ''affile_sd_curpos(/var/log/app.log)''"
    by (auto simp: app_log_deinitialized_reader linux_host_persist_name built_reader_fresh
        app_log_filename)
  have j: "fst (affile_sd_init reader_deinit_fails app_log) = True"
    by (simp add: init_valid reader_deinit_fails_init resolved_reader_deinit_fails
        app_log_valid)
  then have i: "affile_sd_init reader_deinit_fails app_log =
      (True, snd (affile_sd_init reader_deinit_fails app_log))"
    by (simp add: prod_eq_iff)
  from t have "affile_sd_init reader_deinit_fails app_log =
        (True, snd (affile_sd_init reader_deinit_fails app_log)) \<and>
      filename app_log = filename app_log \<and> file_opener app_log = file_opener app_log \<and>
      cfg app_log = cfg app_log \<and>
      file_reader_options (resolved reader_deinit_fails app_log) =
        file_reader_options (resolved linux_host app_log) \<longrightarrow>
      affile_sd_format_persist_name linux_host
        (snd (affile_sd_init reader_deinit_fails app_log)) =
      affile_sd_format_persist_name linux_host app_log_initialized"
    by blast
  with i have again: "affile_sd_format_persist_name linux_host
      (snd (affile_sd_init reader_deinit_fails app_log)) =
      affile_sd_format_persist_name linux_host app_log_initialized"
    by (simp add: resolved_reader_deinit_fails)
  from app_log_init first r later j again show ?thesis
    by (intro conjI) simp_all
qed

subsection \<open>Free\<close>

lemma free_no_reader:
  "file_reader self = None \<Longrightarrow>
   affile_sd_free self = Inr (self\<lparr>calls := calls self @ released\<rparr>)"
  by (simp add: affile_sd_free_def Let_def log_call_def log_pipe_unref_def released_def)

lemma free_reader:
  "file_reader self = Some r \<Longrightarrow> 0 < ref_cnt r \<Longrightarrow>
   affile_sd_free self =
     Inr (self\<lparr>file_reader := Some (r\<lparr>ref_cnt := ref_cnt r - 1\<rparr>),
               calls := calls self @ released\<rparr>)"
  by (simp add: affile_sd_free_def Let_def log_call_def log_pipe_unref_def released_def)

lemma free_underflow:
  "file_reader self = Some r \<Longrightarrow> ref_cnt r = 0 \<Longrightarrow> affile_sd_free self = Inl RefCountUnderflow"
  by (simp add: affile_sd_free_def Let_def log_call_def log_pipe_unref_def)

lemma run_queue_only_reader:
  "set (map snd qs) \<subseteq> range (\<lambda>(msg, po). Queue msg po) \<Longrightarrow> run qs self = Inr self' \<Longrightarrow>
   file_reader self' = file_reader self"
proof (induction qs arbitrary: self)
  case Nil
  then show ?case by simp
next
  case (Cons em qs)
  obtain e m where em: "em = (e, m)" by (cases em)
  from Cons.prems(1) em obtain msg po where m: "m = Queue msg po" by auto
  from Cons.prems em m have "run qs (affile_sd_queue self msg po) = Inr self'" by simp
  moreover from Cons.prems(1) have "set (map snd qs) \<subseteq> range (\<lambda>(msg, po). Queue msg po)" by simp
  ultimately have "file_reader self' = file_reader (affile_sd_queue self msg po)"
    by (rule Cons.IH [rotated])
  then show ?case by (simp add: queue_reader)
qed

lemma app_log_free: "\<exists>later. affile_sd_free app_log_deinitialized = Inr later"
  using free_reader [OF app_log_deinitialized_reader] by (simp add: built_reader_fresh)

text \<open>
  Claim C10. The constructor leaves the reader pointer NULL. On a driver that was
  never initialized (its reader pointer still NULL), \<open>affile_sd_free\<close> succeeds: it frees the opener, finds no reader to
  release, frees the path string and both option structs and hands the driver back to
  the generic free. On a driver in the Deinitialized state (a successful init, any
  number of queued messages, a successful deinit) it succeeds with the same calls, and
  the reader's reference count goes from one to zero.
\<close>

theorem free_releases:
  "file_reader (affile_sd_new e0 fname c) = None \<and>
   (file_reader self = None \<longrightarrow>
      affile_sd_free self = Inr (self\<lparr>calls := calls self @ released\<rparr>)) \<and>
   (affile_sd_init e1 self = (True, s1) \<and>
    set (map snd qs) \<subseteq> range (\<lambda>(msg, po). Queue msg po) \<and> run qs s1 = Inr s2 \<and>
    affile_sd_deinit e2 s2 = Inr (True, s3) \<longrightarrow>
      (\<exists>r. file_reader s3 = Some r \<and> ref_cnt r = 1 \<and>
           affile_sd_free s3 =
             Inr (s3\<lparr>file_reader := Some (r\<lparr>ref_cnt := 0\<rparr>), calls := calls s3 @ released\<rparr>)))"
proof (intro conjI impI)
  show "file_reader (affile_sd_new e0 fname c) = None"
    by (rule file_reader_new_instance)
next
  assume "file_reader self = None"
  then show "affile_sd_free self = Inr (self\<lparr>calls := calls self @ released\<rparr>)"
    by (rule free_no_reader)
next
  assume a: "affile_sd_init e1 self = (True, s1) \<and>
    set (map snd qs) \<subseteq> range (\<lambda>(msg, po). Queue msg po) \<and> run qs s1 = Inr s2 \<and>
    affile_sd_deinit e2 s2 = Inr (True, s3)"
  define r1 where "r1 = (built_reader e1 self)\<lparr>pipe_next := Some DriverPipe, fr_initialized := True\<rparr>"
  have r1: "file_reader s1 = Some r1"
    using a init_True_reader [of e1 self s1] by (simp add: r1_def)
  have r2: "file_reader s2 = Some r1"
    using a run_queue_only_reader [of qs s1 s2] r1 by simp
  have r3: "file_reader s3 = Some (snd (log_pipe_deinit e2 r1))"
    using a deinit_reader [OF r2, of e2] by auto
  have c: "ref_cnt (snd (log_pipe_deinit e2 r1)) = 1"
    by (simp add: reader_after_deinit r1_def built_reader_fresh)
  show "\<exists>r. file_reader s3 = Some r \<and> ref_cnt r = 1 \<and>
       affile_sd_free s3 =
         Inr (s3\<lparr>file_reader := Some (r\<lparr>ref_cnt := 0\<rparr>), calls := calls s3 @ released\<rparr>)"
    using r3 c free_reader [OF r3] by simp
qed

theorem free_releases_witness:
  "file_reader app_log = None \<and>
   affile_sd_free app_log = Inr (app_log\<lparr>calls := calls app_log @ released\<rparr>) \<and>
   affile_sd_deinit linux_host app_log_queued = Inr (True, app_log_deinitialized) \<and>
   map_sum id (map_option ref_cnt \<circ> file_reader) (affile_sd_free app_log_deinitialized) =
     Inr (Some 0)"
proof -
  have q: "set (map snd [(linux_host, Queue ''Oct 30 15:41:07 host app: up'' True)]) \<subseteq>
      range (\<lambda>(msg, po). Queue msg po)"
    by auto
  have r: "run [(linux_host, Queue ''Oct 30 15:41:07 host app: up'' True)] app_log_initialized =
      Inr app_log_queued"
    by (simp add: app_log_queued_def)
  show ?thesis
    using free_releases [of linux_host "''/var/log/app.log''" cfg_3_5 app_log linux_host
        app_log_initialized
        "[(linux_host, Queue ''Oct 30 15:41:07 host app: up'' True)]" app_log_queued linux_host
        app_log_deinitialized]
      app_log_no_reader app_log_init q r app_log_deinit
    by auto
qed

subsection \<open>The restore-state invariant\<close>

lemma follow_restore_resolved:
  "follow_freq (file_reader_options (resolved e self)) = follow_freq (file_reader_options self)"
  "restore_state (file_reader_options (resolved e self)) = restore_state (file_reader_options self)"
  by (simp_all add: resolved_def file_reader_options_init_def)

lemma invariant_resolved:
  "restore_state_invariant (s\<lparr>file_reader_options := file_reader_options (resolved e self)\<rparr>) =
   restore_state_invariant self"
  by (simp add: restore_state_invariant_def follow_restore_resolved)

lemma invariant_init: "restore_state_invariant (snd (affile_sd_init e self)) = restore_state_invariant self"
proof -
  consider (generic) "\<not> log_src_driver_init_method e"
    | (invalid) "log_src_driver_init_method e" "are_multi_line_settings_invalid (resolved e self)"
    | (valid) "log_src_driver_init_method e" "\<not> are_multi_line_settings_invalid (resolved e self)"
    by blast
  then show ?thesis
  proof cases
    case generic
    then show ?thesis by (simp add: init_generic_failure restore_state_invariant_def)
  next
    case invalid
    then show ?thesis
      by (simp add: init_invalid restore_state_invariant_def follow_restore_resolved)
  next
    case valid
    then show ?thesis
      by (simp add: init_valid restore_state_invariant_def follow_restore_resolved)
  qed
qed

lemma invariant_queue: "restore_state_invariant (affile_sd_queue self msg po) = restore_state_invariant self"
  by (simp add: affile_sd_queue_def log_call_def restore_state_invariant_def)

lemma invariant_deinit:
  "affile_sd_deinit e self = Inr res \<Longrightarrow> restore_state_invariant (snd res) = restore_state_invariant self"
  by (cases "file_reader self") (auto simp: deinit_no_reader deinit_reader restore_state_invariant_def)

lemma invariant_free:
  "affile_sd_free self = Inr self' \<Longrightarrow> restore_state_invariant self' = restore_state_invariant self"
  by (auto simp: affile_sd_free_def Let_def log_call_def restore_state_invariant_def split: sum.splits)

lemma invariant_call_method:
  assumes "call_method e m self = Inr self'"
  shows "restore_state_invariant self' = restore_state_invariant self"
proof (cases m)
  case Init
  then show ?thesis using assms by (auto simp: invariant_init)
next
  case (Queue msg po)
  then show ?thesis using assms by (auto simp: invariant_queue)
next
  case Deinit
  with assms obtain res where "affile_sd_deinit e self = Inr res" "self' = snd res"
    by (auto split: sum.splits)
  then show ?thesis by (simp add: invariant_deinit)
next
  case Free
  then show ?thesis using assms by (simp add: invariant_free)
qed

lemma invariant_run:
  "run ms self = Inr self' \<Longrightarrow> restore_state_invariant self' = restore_state_invariant self"
proof (induction ms arbitrary: self)
  case Nil
  then show ?case by simp
next
  case (Cons em ms)
  obtain e m where em: "em = (e, m)" by (cases em)
  from Cons.prems em obtain s1 where s1: "call_method e m self = Inr s1" "run ms s1 = Inr self'"
    by (auto split: sum.splits)
  show ?case
    using Cons.IH [OF s1(2)] invariant_call_method [OF s1(1)] by simp
qed

text \<open>
  Claim C5. The driver the constructor returns has \<open>restore_state\<close> equal to
  \<open>follow_freq > 0\<close>, and so has the driver after any sequence of method calls (init,
  queue, deinit, free) that follows.
\<close>

theorem restore_state_invariant_kept:
  "restore_state_invariant (affile_sd_new e fname c) \<and>
   (run ms (affile_sd_new e fname c) = Inr later \<longrightarrow> restore_state_invariant later)"
  using invariant_run [of ms "affile_sd_new e fname c" later]
  by (simp add: restore_state_invariant_def restore_state_new)

theorem restore_state_invariant_kept_witness:
  "restore_state_invariant app_log \<and>
   (\<exists>later. run app_log_lifecycle app_log = Inr later \<and> restore_state_invariant later)"
proof -
  have f: "\<exists>later. affile_sd_free app_log_deinitialized = Inr later"
    by (rule app_log_free)
  then obtain later where "run app_log_lifecycle app_log = Inr later"
    using app_log_init app_log_deinit
    by (auto simp: app_log_lifecycle_def app_log_queued_def)
  then show ?thesis
    using restore_state_invariant_kept [of linux_host "''/var/log/app.log''" cfg_3_5
        app_log_lifecycle later]
    by (auto simp: app_log_def)
qed

end
